theory Spec2Isabelle
  imports Complex_Main
begin

section \<open>The DeepSort front end (deepsort\_tracker.py)\<close>

text \<open>
  The file holds one class, \<^verbatim>\<open>DeepSort\<close>, a thin driver around three collaborators
  of the same repository whose code is elsewhere: the embedder
  (\<^verbatim>\<open>embedder_pytorch\<close>), the overlap filter (\<^verbatim>\<open>utils.nms\<close>) and the tracker
  (\<^verbatim>\<open>deep_sort.tracker\<close>). The methods of \<^verbatim>\<open>DeepSort\<close> are embedded below as
  functions over an explicit object state; the collaborators are parameters.
\<close>

subsection \<open>Values\<close>

text \<open>
  A raw detection is the tuple \<^verbatim>\<open>([left, top, w, h], confidence, detection_class)\<close>
  of the docstring of \<^verbatim>\<open>update_tracks\<close>. The numbers are Python floats or ints; they
  are modelled as reals (finite values; comparison and truncation are exact).
\<close>

record bbox =
  box_left :: real
  box_top :: real
  box_width :: real
  box_height :: real

type_synonym raw_detection = "bbox \<times> real \<times> string"

text \<open>
  Modelled from the spec: the class \<^verbatim>\<open>Detection\<close> (deep\_sort/detection.py) is not in
  the sources. The spec's Detection is a bounding box, a confidence score, a class label
  and an appearance descriptor; the call \<^verbatim>\<open>Detection(raw_det[0], raw_det[1], embed, raw_det[2])\<close>
  builds it from these four values.
\<close>

record 'e detection =
  tlwh :: bbox
  confidence :: real
  feature :: 'e
  class_name :: string

definition Detection :: "bbox \<Rightarrow> real \<Rightarrow> 'e \<Rightarrow> string \<Rightarrow> 'e detection" where
  "Detection b c f k = \<lparr>tlwh = b, confidence = c, feature = f, class_name = k\<rparr>"

text \<open>
  An image is a numpy array of shape \<^verbatim>\<open>[H, W, C]\<close>: \<open>shape0\<close> rows of \<open>shape1\<close>
  pixels each (a pixel stands for the \<^verbatim>\<open>C\<close> channel values).
\<close>

record 'px ndarray =
  shape0 :: nat
  shape1 :: nat
  rows :: "'px list list"

definition ndarray_ok :: "'px ndarray \<Rightarrow> bool" where
  "ndarray_ok a \<longleftrightarrow>
     length (rows a) = shape0 a \<and> list_all (\<lambda>r. length r = shape1 a) (rows a)"

text \<open>The exceptions the file raises, and the one its list indexing can raise.\<close>

datatype error =
    EmbedderNotCreated
  | EmbedsOrFrameMissing
  | IndexError

subsection \<open>Python primitives\<close>

text \<open>\<^verbatim>\<open>int(x)\<close> truncates towards zero.\<close>

definition py_int :: "real \<Rightarrow> int" where
  "py_int x = (if 0 \<le> x then \<lfloor>x\<rfloor> else \<lceil>x\<rceil>)"

text \<open>
  A slice bound \<open>i\<close> on a sequence of length \<open>n\<close>: a negative bound counts from the
  end, and the result is clamped to \<open>0..n\<close>.
\<close>

definition slice_index :: "int \<Rightarrow> int \<Rightarrow> nat" where
  "slice_index n i = nat (if i < 0 then max 0 (i + n) else min i n)"

definition py_slice :: "'a list \<Rightarrow> int \<Rightarrow> int \<Rightarrow> 'a list" where
  "py_slice xs start stop =
     (let n = int (length xs);
          lo = slice_index n start;
          hi = slice_index n stop
      in take (hi - lo) (drop lo xs))"

text \<open>\<^verbatim>\<open>a[r0:r1, c0:c1]\<close> on an image.\<close>

definition ndarray_slice :: "'px ndarray \<Rightarrow> int \<Rightarrow> int \<Rightarrow> int \<Rightarrow> int \<Rightarrow> 'px ndarray" where
  "ndarray_slice a r0 r1 c0 c1 =
     \<lparr>shape0 = slice_index (int (shape0 a)) r1 - slice_index (int (shape0 a)) r0,
      shape1 = slice_index (int (shape1 a)) c1 - slice_index (int (shape1 a)) c0,
      rows = map (\<lambda>r. py_slice r c0 c1) (py_slice (rows a) r0 r1)\<rparr>"

text \<open>\<^verbatim>\<open>xs[i]\<close> on a list: a negative index counts from the end, out of range raises.\<close>

definition py_getitem :: "'a list \<Rightarrow> int \<Rightarrow> error + 'a" where
  "py_getitem xs i =
     (if 0 \<le> i \<and> i < int (length xs) then Inr (xs ! nat i)
      else if i < 0 \<and> - int (length xs) \<le> i then Inr (xs ! nat (i + int (length xs)))
      else Inl IndexError)"

text \<open>\<^verbatim>\<open>[xs[i] for i in indices]\<close>: the first failing index raises.\<close>

fun py_select :: "'a list \<Rightarrow> int list \<Rightarrow> error + 'a list" where
  "py_select xs [] = Inr []"
| "py_select xs (i # indices) =
     (case py_getitem xs i of
        Inl e \<Rightarrow> Inl e
      | Inr x \<Rightarrow> (case py_select xs indices of Inl e \<Rightarrow> Inl e | Inr ys \<Rightarrow> Inr (x # ys)))"

subsection \<open>The collaborators and the object\<close>

text \<open>
  The methods of the embedder, the overlap filter and the tracker that the file calls.
  \<open>'emb\<close> is the embedder object, \<open>'trk\<close> the tracker object, \<open>'tr\<close> a track, \<open>'e\<close> an
  appearance descriptor. \<open>Tracker_init\<close> takes the metric's two parameters and
  \<^verbatim>\<open>max_age\<close> (\<^verbatim>\<open>override_track_class\<close> and \<^verbatim>\<open>clock\<close> are handed to the tracker
  unread, so they are part of the constructor given here); \<open>Embedder_init\<close> takes
  \<^verbatim>\<open>half\<close>, \<^verbatim>\<open>max_batch_size\<close> and \<^verbatim>\<open>bgr\<close>. The calls are taken to return.
\<close>

record ('px, 'e, 'emb, 'trk, 'tr) collaborators =
  Embedder_init :: "bool \<Rightarrow> nat \<Rightarrow> bool \<Rightarrow> 'emb"
  Embedder_predict :: "'emb \<Rightarrow> 'px ndarray list \<Rightarrow> 'e list"
  non_max_suppression :: "bbox list \<Rightarrow> real \<Rightarrow> real list \<Rightarrow> int list"
  Tracker_init :: "real \<Rightarrow> int option \<Rightarrow> int \<Rightarrow> 'trk"
  Tracker_predict :: "'trk \<Rightarrow> 'trk"
  Tracker_update :: "'trk \<Rightarrow> 'e detection list \<Rightarrow> 'trk"
  Tracker_tracks :: "'trk \<Rightarrow> 'tr list"
  Tracker_next_id :: "'trk \<Rightarrow> nat"

text \<open>The attributes of a \<^verbatim>\<open>DeepSort\<close> object (the logger only prints).\<close>

record ('emb, 'trk) DeepSort =
  nms_max_overlap :: real
  tracker :: 'trk
  embedder :: "'emb option"

subsection \<open>The methods\<close>

text \<open>\<^verbatim>\<open>__init__\<close> (lines 31 to 79).\<close>

definition DeepSort_init ::
  "('px, 'e, 'emb, 'trk, 'tr) collaborators \<Rightarrow> int \<Rightarrow> real \<Rightarrow> real \<Rightarrow> int option \<Rightarrow>
     bool \<Rightarrow> bool \<Rightarrow> bool \<Rightarrow> ('emb, 'trk) DeepSort" where
  "DeepSort_init E max_age nms_max_overlap' max_cosine_distance nn_budget embedder' half bgr =
     \<lparr>nms_max_overlap = nms_max_overlap',
      tracker = Tracker_init E max_cosine_distance nn_budget max_age,
      embedder = (if embedder' then Some (Embedder_init E half 16 bgr) else None)\<rparr>"

text \<open>
  \<^verbatim>\<open>generate_embeds\<close> (lines 131 to 145). The loop appends one crop per detection;
  \<open>crops_loop\<close> is the loop with the list built so far.
\<close>

fun crops_loop :: "'px ndarray \<Rightarrow> raw_detection list \<Rightarrow> 'px ndarray list \<Rightarrow> 'px ndarray list" where
  "crops_loop frame [] crops = crops"
| "crops_loop frame (detection # raw_dets) crops =
     (let l = py_int (box_left (fst detection));
          t = py_int (box_top (fst detection));
          w = py_int (box_width (fst detection));
          h = py_int (box_height (fst detection));
          im_height = int (shape0 frame);
          im_width = int (shape1 frame);
          r = l + w;
          b = t + h;
          crop_l = max 0 l;
          crop_r = min im_width r;
          crop_t = max 0 t;
          crop_b = min im_height b
      in crops_loop frame raw_dets (crops @ [ndarray_slice frame crop_t crop_b crop_l crop_r]))"

definition generate_embeds ::
  "('px, 'e, 'emb, 'trk, 'tr) collaborators \<Rightarrow> 'emb \<Rightarrow> 'px ndarray \<Rightarrow> raw_detection list \<Rightarrow> 'e list" where
  "generate_embeds E emb frame raw_dets = Embedder_predict E emb (crops_loop frame raw_dets [])"

text \<open>
  \<^verbatim>\<open>create_detections\<close> (lines 147 to 152): a loop over \<^verbatim>\<open>zip(raw_dets, embeds)\<close>
  that appends one \<^verbatim>\<open>Detection\<close> per pair.
\<close>

fun detections_loop :: "(raw_detection \<times> 'e) list \<Rightarrow> 'e detection list \<Rightarrow> 'e detection list" where
  "detections_loop [] detection_list = detection_list"
| "detections_loop ((raw_det, embed') # pairs) detection_list =
     detections_loop pairs
       (detection_list @ [Detection (fst raw_det) (fst (snd raw_det)) embed' (snd (snd raw_det))])"

definition create_detections :: "raw_detection list \<Rightarrow> 'e list \<Rightarrow> 'e detection list" where
  "create_detections raw_dets embeds = detections_loop (zip raw_dets embeds) []"

text \<open>
  \<^verbatim>\<open>update_tracks\<close> (lines 81 to 129). The result is the value returned or the
  exception raised, together with the object after the call. The embedder and the frame are
  read (\<open>the\<close>) only where the checks of lines 100 to 104 have found them present.
\<close>

definition update_tracks ::
  "('px, 'e, 'emb, 'trk, 'tr) collaborators \<Rightarrow> ('emb, 'trk) DeepSort \<Rightarrow> raw_detection list \<Rightarrow>
     'e list option \<Rightarrow> 'px ndarray option \<Rightarrow> (error + 'tr list) \<times> ('emb, 'trk) DeepSort" where
  "update_tracks E self raw_detections embeds frame =
     (if embeds = None \<and> embedder self = None then (Inl EmbedderNotCreated, self)
      else if embeds = None \<and> frame = None then (Inl EmbedsOrFrameMissing, self)
      else
        let raw_detections' =
              filter (\<lambda>d. 0 < box_width (fst d) \<and> 0 < box_height (fst d)) raw_detections;
            embeds' =
              (case embeds of
                 None \<Rightarrow> generate_embeds E (the (embedder self)) (the frame) raw_detections'
               | Some es \<Rightarrow> es);
            detections = create_detections raw_detections' embeds';
            boxes = map tlwh detections;
            scores = map confidence detections
        in case (if nms_max_overlap self < 1
                 then py_select detections
                        (non_max_suppression E boxes (nms_max_overlap self) scores)
                 else Inr detections) of
             Inl e \<Rightarrow> (Inl e, self)
           | Inr detections' \<Rightarrow>
               (let trk = Tracker_update E (Tracker_predict E (tracker self)) detections'
                in (Inr (Tracker_tracks E trk), self\<lparr>tracker := trk\<rparr>)))"

text \<open>
  \<^verbatim>\<open>refresh_track_ids\<close> (lines 154 to 155): the body is the expression
  \<^verbatim>\<open>self.tracker._next_id\<close>, whose value is dropped. The result is the object after
  the call.
\<close>

definition refresh_track_ids ::
  "('px, 'e, 'emb, 'trk, 'tr) collaborators \<Rightarrow> ('emb, 'trk) DeepSort \<Rightarrow> ('emb, 'trk) DeepSort" where
  "refresh_track_ids E self = (let unread = Tracker_next_id E (tracker self) in self)"

section \<open>The tracker, from the spec\<close>

text \<open>
  Modelled from the spec: the class \<^verbatim>\<open>Tracker\<close> (deep\_sort/tracker.py) and its tracks
  are not in the sources. What follows is the Track Lifecycle Manager of section 4.4 of the
  spec over the data model of its section 3. The Motion Model (4.1) and the assignment
  solver of the Association Engine (4.3) are parameters of the model.
\<close>

datatype track_state = Tentative | Confirmed | Deleted

record ('m, 'e) track =
  track_id :: nat
  motion :: 'm
  gallery :: "'e list"
  state :: track_state
  hits :: nat
  time_since_update :: nat
  class_label :: string

record ('m, 'e) engine =
  motion_predict :: "'m \<Rightarrow> 'm"
  motion_correct :: "'m \<Rightarrow> bbox \<Rightarrow> 'm"
  motion_initiate :: "bbox \<Rightarrow> 'm"
  solve_assignment ::
    "('m, 'e) track list \<Rightarrow> 'e detection list \<Rightarrow> (nat \<times> nat) list \<times> nat list \<times> nat list"

record ('m, 'e) Tracker =
  tracks :: "('m, 'e) track list"
  next_id :: nat
  max_age :: int
  n_init :: nat
  budget :: "nat option"

text \<open>
  Modelled from the spec: the tracker is created once per session with no track, an
  identifier counter and the configured thresholds. The confirmation threshold and the
  first identifier are not arguments of \<^verbatim>\<open>DeepSort.__init__\<close>; they are given here.
\<close>

definition Tracker_new :: "nat \<Rightarrow> nat \<Rightarrow> real \<Rightarrow> int option \<Rightarrow> int \<Rightarrow> ('m, 'e) Tracker" where
  "Tracker_new confirm_hits first_id max_cosine_distance nn_budget age_limit =
     \<lparr>tracks = [], next_id = first_id, max_age = age_limit, n_init = confirm_hits,
      budget = map_option nat nn_budget\<rparr>"

text \<open>
  Modelled from the spec (4.2): a gallery holds up to the budget of most recent
  descriptors, the oldest evicted first; unbounded if no budget is configured.
\<close>

definition keep_recent :: "nat option \<Rightarrow> 'e list \<Rightarrow> 'e list" where
  "keep_recent b fs = (case b of None \<Rightarrow> fs | Some n \<Rightarrow> drop (length fs - n) fs)"

text \<open>Modelled from the spec (4.4, step 1): the predict step on every live track.\<close>

definition predict_all :: "('m, 'e) engine \<Rightarrow> ('m, 'e) Tracker \<Rightarrow> ('m, 'e) Tracker" where
  "predict_all G T = T\<lparr>tracks := map (\<lambda>t. t\<lparr>motion := motion_predict G (motion t)\<rparr>) (tracks T)\<rparr>"

text \<open>
  Modelled from the spec (4.4, step 2, and section 7): the engine is invoked with all
  live tracks and the detections; no tracks or no detections short-circuits to all
  unmatched without invoking the solver.
\<close>

definition associate ::
  "('m, 'e) engine \<Rightarrow> ('m, 'e) track list \<Rightarrow> 'e detection list \<Rightarrow>
     (nat \<times> nat) list \<times> nat list \<times> nat list" where
  "associate G ts ds =
     (if ts = [] \<or> ds = [] then ([], [0..<length ts], [0..<length ds])
      else solve_assignment G ts ds)"

text \<open>
  Modelled from the spec (4.4, step 3): a matched track is corrected with the detection's
  box, gets the descriptor appended, its time since update reset and its hit counter
  incremented, and is promoted once the counter reaches the confirmation threshold.
  An index outside the tracks or the detections selects nothing.
\<close>

definition matched_track ::
  "('m, 'e) engine \<Rightarrow> nat \<Rightarrow> nat option \<Rightarrow> 'e detection \<Rightarrow> ('m, 'e) track \<Rightarrow> ('m, 'e) track" where
  "matched_track G confirm_hits b d t =
     t\<lparr>motion := motion_correct G (motion t) (tlwh d),
       gallery := keep_recent b (gallery t @ [feature d]),
       time_since_update := 0,
       hits := Suc (hits t),
       state := (if state t = Tentative \<and> confirm_hits \<le> Suc (hits t) then Confirmed
                 else state t)\<rparr>"

fun update_matched ::
  "('m, 'e) engine \<Rightarrow> nat \<Rightarrow> nat option \<Rightarrow> 'e detection list \<Rightarrow> (nat \<times> nat) list \<Rightarrow>
     ('m, 'e) track list \<Rightarrow> ('m, 'e) track list" where
  "update_matched G confirm_hits b ds [] ts = ts"
| "update_matched G confirm_hits b ds ((i, j) # matches) ts =
     update_matched G confirm_hits b ds matches
       (if i < length ts \<and> j < length ds
        then ts[i := matched_track G confirm_hits b (ds ! j) (ts ! i)] else ts)"

text \<open>
  Modelled from the spec (4.4, step 4): an unmatched track ages by one; it is marked
  Deleted if its time since update exceeds the age limit, or at once if it was Tentative.
\<close>

definition missed_track :: "int \<Rightarrow> ('m, 'e) track \<Rightarrow> ('m, 'e) track" where
  "missed_track age_limit t =
     t\<lparr>time_since_update := Suc (time_since_update t),
       state := (if state t = Tentative \<or> age_limit < int (Suc (time_since_update t))
                 then Deleted else state t)\<rparr>"

fun age_unmatched :: "int \<Rightarrow> nat list \<Rightarrow> ('m, 'e) track list \<Rightarrow> ('m, 'e) track list" where
  "age_unmatched age_limit [] ts = ts"
| "age_unmatched age_limit (i # unmatched) ts =
     age_unmatched age_limit unmatched
       (if i < length ts then ts[i := missed_track age_limit (ts ! i)] else ts)"

text \<open>
  Modelled from the spec (4.4, step 5): one new Tentative track per unmatched detection,
  seeded with the detection's box and descriptor and assigned the next identifier.
\<close>

definition new_track :: "('m, 'e) engine \<Rightarrow> nat option \<Rightarrow> nat \<Rightarrow> 'e detection \<Rightarrow> ('m, 'e) track" where
  "new_track G b ident d =
     \<lparr>track_id = ident, motion = motion_initiate G (tlwh d),
      gallery = keep_recent b [feature d], state = Tentative, hits = 0,
      time_since_update = 0, class_label = class_name d\<rparr>"

fun spawn_tracks ::
  "('m, 'e) engine \<Rightarrow> nat option \<Rightarrow> 'e detection list \<Rightarrow> nat list \<Rightarrow>
     ('m, 'e) track list \<times> nat \<Rightarrow> ('m, 'e) track list \<times> nat" where
  "spawn_tracks G b ds [] (ts, ident) = (ts, ident)"
| "spawn_tracks G b ds (j # unmatched) (ts, ident) =
     spawn_tracks G b ds unmatched
       (if j < length ds then (ts @ [new_track G b ident (ds ! j)], Suc ident) else (ts, ident))"

text \<open>
  Modelled from the spec (4.4, steps 2 to 6): associate, update the matched tracks, age
  the unmatched ones, spawn new tracks, and remove all Deleted tracks from the live set.
\<close>

definition update_all ::
  "('m, 'e) engine \<Rightarrow> ('m, 'e) Tracker \<Rightarrow> 'e detection list \<Rightarrow> ('m, 'e) Tracker" where
  "update_all G T ds =
     (case associate G (tracks T) ds of
        (matches, unmatched_tracks, unmatched_detections) \<Rightarrow>
          (case spawn_tracks G (budget T) ds unmatched_detections
                  (age_unmatched (max_age T) unmatched_tracks
                     (update_matched G (n_init T) (budget T) ds matches (tracks T)),
                   next_id T) of
             (ts, ident) \<Rightarrow>
               T\<lparr>tracks := filter (\<lambda>t. state t \<noteq> Deleted) ts, next_id := ident\<rparr>))"

text \<open>
  The collaborators of the front end with this tracker in the tracker's place; the
  embedder and the overlap filter stay parameters.
\<close>

definition with_spec_tracker ::
  "('m, 'e) engine \<Rightarrow> nat \<Rightarrow> nat \<Rightarrow> (bool \<Rightarrow> nat \<Rightarrow> bool \<Rightarrow> 'emb) \<Rightarrow>
     ('emb \<Rightarrow> 'px ndarray list \<Rightarrow> 'e list) \<Rightarrow> (bbox list \<Rightarrow> real \<Rightarrow> real list \<Rightarrow> int list) \<Rightarrow>
     ('px, 'e, 'emb, ('m, 'e) Tracker, ('m, 'e) track) collaborators" where
  "with_spec_tracker G confirm_hits first_id emb_init emb_predict nms =
     \<lparr>Embedder_init = emb_init,
      Embedder_predict = emb_predict,
      non_max_suppression = nms,
      Tracker_init = Tracker_new confirm_hits first_id,
      Tracker_predict = predict_all G,
      Tracker_update = update_all G,
      Tracker_tracks = tracks,
      Tracker_next_id = next_id\<rparr>"

section \<open>Definitions used to state the properties\<close>

text \<open>
  The detection list of a frame after the filter, the embedding and the pairing (lines 106
  to 112 of \<^verbatim>\<open>update_tracks\<close>), before the overlap filter.
\<close>

definition post_filter_detections ::
  "('px, 'e, 'emb, 'trk, 'tr) collaborators \<Rightarrow> ('emb, 'trk) DeepSort \<Rightarrow> raw_detection list \<Rightarrow>
     'e list option \<Rightarrow> 'px ndarray option \<Rightarrow> 'e detection list" where
  "post_filter_detections E self raw_detections embeds frame =
     (let kept = filter (\<lambda>d. 0 < box_width (fst d) \<and> 0 < box_height (fst d)) raw_detections
      in create_detections kept
           (case embeds of
              None \<Rightarrow> generate_embeds E (the (embedder self)) (the frame) kept
            | Some es \<Rightarrow> es))"

text \<open>
  A tracker that only records the calls made on it: its state is the list of the calls so
  far, in order. It makes the order and the number of the calls of \<^verbatim>\<open>update_tracks\<close>
  on the tracker visible.
\<close>

datatype 'e tracker_call = CallPredict | CallUpdate "'e detection list"

definition with_recording_tracker ::
  "(bool \<Rightarrow> nat \<Rightarrow> bool \<Rightarrow> 'emb) \<Rightarrow> ('emb \<Rightarrow> 'px ndarray list \<Rightarrow> 'e list) \<Rightarrow>
     (bbox list \<Rightarrow> real \<Rightarrow> real list \<Rightarrow> int list) \<Rightarrow>
     ('px, 'e, 'emb, 'e tracker_call list, unit) collaborators" where
  "with_recording_tracker emb_init emb_predict nms =
     \<lparr>Embedder_init = emb_init,
      Embedder_predict = emb_predict,
      non_max_suppression = nms,
      Tracker_init = (\<lambda>max_cosine_distance nn_budget age_limit. []),
      Tracker_predict = (\<lambda>calls. calls @ [CallPredict]),
      Tracker_update = (\<lambda>calls ds. calls @ [CallUpdate ds]),
      Tracker_tracks = (\<lambda>calls. []),
      Tracker_next_id = (\<lambda>calls. 0)\<rparr>"

subsection \<open>A concrete environment for the examples\<close>

text \<open>
  Pixels and descriptors are numbers. The example embedder sums the pixels of a crop, the
  example overlap filter keeps the indices whose score reaches the threshold, and the
  example engine matches the first track with the first detection, the second with the
  second, and so on.
\<close>

definition positional_engine :: "(bbox, nat) engine" where
  "positional_engine =
     \<lparr>motion_predict = (\<lambda>m. m),
      motion_correct = (\<lambda>m b. b),
      motion_initiate = (\<lambda>b. b),
      solve_assignment = (\<lambda>ts ds.
         (zip [0..<min (length ts) (length ds)] [0..<min (length ts) (length ds)],
          [min (length ts) (length ds)..<length ts],
          [min (length ts) (length ds)..<length ds]))\<rparr>"

definition pixel_sum :: "unit \<Rightarrow> nat ndarray list \<Rightarrow> nat list" where
  "pixel_sum emb crops = map (\<lambda>c. sum_list (concat (rows c))) crops"

definition keep_confident :: "bbox list \<Rightarrow> real \<Rightarrow> real list \<Rightarrow> int list" where
  "keep_confident boxes thr scores =
     map int (filter (\<lambda>i. thr \<le> scores ! i) [0..<length boxes])"

definition example_collaborators ::
  "(nat, nat, unit, (bbox, nat) Tracker, (bbox, nat) track) collaborators" where
  "example_collaborators =
     with_spec_tracker positional_engine 3 1 (\<lambda>half n bgr. ()) pixel_sum keep_confident"

definition example_frame :: "nat ndarray" where
  "example_frame = \<lparr>shape0 = 3, shape1 = 3, rows = [[1, 2, 3], [4, 5, 6], [7, 8, 9]]\<rparr>"

definition example_detections :: "raw_detection list" where
  "example_detections =
     [(\<lparr>box_left = 0, box_top = 0, box_width = 2, box_height = 2\<rparr>, 1 / 2, ''person''),
      (\<lparr>box_left = 1, box_top = 1, box_width = 0, box_height = 5\<rparr>, 3 / 4, ''person''),
      (\<lparr>box_left = 1, box_top = 1, box_width = 5, box_height = 5\<rparr>, 1 / 4, ''car'')]"

definition example_object :: "real \<Rightarrow> bool \<Rightarrow> (unit, (bbox, nat) Tracker) DeepSort" where
  "example_object overlap with_embedder =
     DeepSort_init example_collaborators 30 overlap (1 / 5) None with_embedder True True"

definition example_tracking :: "(unit, (bbox, nat) Tracker) DeepSort" where
  "example_tracking =
     \<lparr>nms_max_overlap = 1,
      tracker =
        \<lparr>tracks =
           [\<lparr>track_id = 4, motion = \<lparr>box_left = 0, box_top = 0, box_width = 2, box_height = 2\<rparr>,
             gallery = [12], state = Confirmed, hits = 3, time_since_update = 0,
             class_label = ''person''\<rparr>,
            \<lparr>track_id = 6, motion = \<lparr>box_left = 1, box_top = 0, box_width = 1, box_height = 1\<rparr>,
             gallery = [2], state = Tentative, hits = 0, time_since_update = 0,
             class_label = ''car''\<rparr>],
         next_id = 7, max_age = 30, n_init = 3, budget = None\<rparr>,
      embedder = None\<rparr>"

definition example_recorder :: "(nat, nat, unit, nat tracker_call list, unit) collaborators" where
  "example_recorder = with_recording_tracker (\<lambda>half n bgr. ()) pixel_sum keep_confident"

definition example_recording :: "real \<Rightarrow> (unit, nat tracker_call list) DeepSort" where
  "example_recording overlap = \<lparr>nms_max_overlap = overlap, tracker = [], embedder = Some ()\<rparr>"

definition outside_detection :: raw_detection where
  "outside_detection =
     (\<lparr>box_left = - 2, box_top = - 2, box_width = 1, box_height = 1\<rparr>, 1 / 2, ''person'')"

section \<open>Lemmas about the methods\<close>

lemma detections_loop_append:
  "detections_loop pairs acc =
     acc @ map (\<lambda>(r, e). Detection (fst r) (fst (snd r)) e (snd (snd r))) pairs"
  by (induction pairs arbitrary: acc) auto

lemma create_detections_map:
  "create_detections raw_dets embeds =
     map (\<lambda>(r, e). Detection (fst r) (fst (snd r)) e (snd (snd r))) (zip raw_dets embeds)"
  by (simp add: create_detections_def detections_loop_append)

lemma update_tracks_ready:
  assumes "\<not> (embeds = None \<and> (embedder self = None \<or> frame = None))"
  shows "update_tracks E self raw embeds frame =
     (case (if nms_max_overlap self < 1
            then py_select (post_filter_detections E self raw embeds frame)
                   (non_max_suppression E (map tlwh (post_filter_detections E self raw embeds frame))
                      (nms_max_overlap self)
                      (map confidence (post_filter_detections E self raw embeds frame)))
            else Inr (post_filter_detections E self raw embeds frame)) of
        Inl e \<Rightarrow> (Inl e, self)
      | Inr ds \<Rightarrow>
          (Inr (Tracker_tracks E (Tracker_update E (Tracker_predict E (tracker self)) ds)),
           self\<lparr>tracker := Tracker_update E (Tracker_predict E (tracker self)) ds\<rparr>))"
  using assms
  by (auto simp add: update_tracks_def post_filter_detections_def Let_def split: sum.splits)

lemma update_tracks_refused:
  assumes "embeds = None \<and> (embedder self = None \<or> frame = None)"
  shows "update_tracks E self raw embeds frame =
     (Inl (if embedder self = None then EmbedderNotCreated else EmbedsOrFrameMissing), self)"
  using assms by (auto simp add: update_tracks_def)

lemma py_select_Inr:
  "py_select xs indices = Inr ys \<Longrightarrow>
     ys = map (\<lambda>i. xs ! nat (if i < 0 then i + int (length xs) else i)) indices
     \<and> list_all (\<lambda>i. - int (length xs) \<le> i \<and> i < int (length xs)) indices"
proof (induction indices arbitrary: ys)
  case Nil
  then show ?case by simp
next
  case (Cons i indices)
  then show ?case
    by (auto simp add: py_getitem_def Let_def split: sum.splits if_splits)
qed

lemma py_select_Inl: "py_select xs indices = Inl e \<Longrightarrow> e = IndexError"
  by (induction indices) (auto simp add: py_getitem_def Let_def split: sum.splits if_splits)

lemma no_deleted_after_update: "t \<in> set (tracks (update_all G T ds)) \<Longrightarrow> state t \<noteq> Deleted"
  by (auto simp add: update_all_def split: prod.splits)

lemma example_kept:
  "filter (\<lambda>d. 0 < box_width (fst d) \<and> 0 < box_height (fst d)) example_detections =
     [example_detections ! 0, example_detections ! 2]"
  by (simp add: example_detections_def)

lemma py_select_valid:
  "list_all (\<lambda>i. - int (length xs) \<le> i \<and> i < int (length xs)) indices \<Longrightarrow>
     py_select xs indices = Inr (map (\<lambda>i. xs ! nat (if i < 0 then i + int (length xs) else i)) indices)"
  by (induction indices) (auto simp add: py_getitem_def)

lemma py_select_invalid:
  "\<not> list_all (\<lambda>i. - int (length xs) \<le> i \<and> i < int (length xs)) indices \<Longrightarrow>
     py_select xs indices = Inl IndexError"
  by (induction indices) (auto simp add: py_getitem_def split: sum.splits dest: py_select_Inl)

lemma post_filter_detections_nms:
  "post_filter_detections (E\<lparr>non_max_suppression := other\<rparr>) self raw embeds frame =
     post_filter_detections E self raw embeds frame"
  by (cases embeds) (simp_all add: post_filter_detections_def generate_embeds_def)

lemma py_select_subset:
  assumes "py_select xs indices = Inr ys"
  shows "set ys \<subseteq> set xs"
proof -
  from py_select_Inr [OF assms]
  have ys: "ys = map (\<lambda>i. xs ! nat (if i < 0 then i + int (length xs) else i)) indices"
    and valid: "list_all (\<lambda>i. - int (length xs) \<le> i \<and> i < int (length xs)) indices"
    by simp_all
  have "xs ! nat (if i < 0 then i + int (length xs) else i) \<in> set xs" if "i \<in> set indices" for i
  proof -
    from valid that have "- int (length xs) \<le> i \<and> i < int (length xs)"
      by (simp add: list_all_iff)
    then have "nat (if i < 0 then i + int (length xs) else i) < length xs"
      by auto
    then show ?thesis
      by (rule nth_mem)
  qed
  then show ?thesis
    unfolding ys by auto
qed

lemma update_tracks_Inr:
  assumes "fst (update_tracks E self raw embeds frame) = Inr ts"
  shows "\<exists>ds. set ds \<subseteq> set (post_filter_detections E self raw embeds frame)
           \<and> update_tracks E self raw embeds frame =
           (Inr (Tracker_tracks E (Tracker_update E (Tracker_predict E (tracker self)) ds)),
            self\<lparr>tracker := Tracker_update E (Tracker_predict E (tracker self)) ds\<rparr>)"
proof (cases "embeds = None \<and> (embedder self = None \<or> frame = None)")
  case True
  with assms show ?thesis
    by (simp add: update_tracks_refused)
next
  case False
  show ?thesis
  proof (cases "if nms_max_overlap self < 1
            then py_select (post_filter_detections E self raw embeds frame)
                   (non_max_suppression E (map tlwh (post_filter_detections E self raw embeds frame))
                      (nms_max_overlap self)
                      (map confidence (post_filter_detections E self raw embeds frame)))
            else Inr (post_filter_detections E self raw embeds frame)")
    case (Inl e)
    with assms show ?thesis
      unfolding update_tracks_ready [OF False] by simp
  next
    case (Inr ds)
    then have "set ds \<subseteq> set (post_filter_detections E self raw embeds frame)"
      by (auto split: if_splits dest: py_select_subset)
    with Inr show ?thesis
      unfolding update_tracks_ready [OF False] by (intro exI [of _ ds]) simp
  qed
qed

lemma post_filter_detections_positive:
  assumes "x \<in> set (post_filter_detections E self raw embeds frame)"
  shows "0 < box_width (tlwh x) \<and> 0 < box_height (tlwh x)"
proof -
  from assms obtain r e where
    "r \<in> set (filter (\<lambda>d. 0 < box_width (fst d) \<and> 0 < box_height (fst d)) raw)"
    and "x = Detection (fst r) (fst (snd r)) e (snd (snd r))"
    unfolding post_filter_detections_def Let_def create_detections_map
    by (auto dest: set_zip_leftD)
  then show ?thesis
    by (simp add: Detection_def)
qed

lemma example_embedder_run:
  "fst (update_tracks example_collaborators (example_object 1 True) example_detections None
          (Some example_frame)) =
     Inr [\<lparr>track_id = 1, motion = \<lparr>box_left = 0, box_top = 0, box_width = 2, box_height = 2\<rparr>,
            gallery = [12], state = Tentative, hits = 0, time_since_update = 0,
            class_label = ''person''\<rparr>,
          \<lparr>track_id = 2, motion = \<lparr>box_left = 1, box_top = 1, box_width = 5, box_height = 5\<rparr>,
            gallery = [28], state = Tentative, hits = 0, time_since_update = 0,
            class_label = ''car''\<rparr>]"
  by code_simp

lemma example_embedder_object: "embedder (example_object 1 True) = Some ()"
  by code_simp

lemma example_embedder_detections:
  "create_detections [example_detections ! 0, example_detections ! 2]
     (Embedder_predict example_collaborators ()
        (crops_loop example_frame [example_detections ! 0, example_detections ! 2] [])) =
     [\<lparr>tlwh = \<lparr>box_left = 0, box_top = 0, box_width = 2, box_height = 2\<rparr>,
        confidence = 1 / 2, feature = 12, class_name = ''person''\<rparr>,
      \<lparr>tlwh = \<lparr>box_left = 1, box_top = 1, box_width = 5, box_height = 5\<rparr>,
        confidence = 1 / 4, feature = 28, class_name = ''car''\<rparr>]"
  by code_simp

lemma example_post_filter:
  "post_filter_detections example_recorder (example_recording 1) example_detections None
       (Some example_frame) =
     [\<lparr>tlwh = \<lparr>box_left = 0, box_top = 0, box_width = 2, box_height = 2\<rparr>,
        confidence = 1 / 2, feature = 12, class_name = ''person''\<rparr>,
      \<lparr>tlwh = \<lparr>box_left = 1, box_top = 1, box_width = 5, box_height = 5\<rparr>,
        confidence = 1 / 4, feature = 28, class_name = ''car''\<rparr>]"
  by code_simp

lemma example_post_filter_half:
  "post_filter_detections example_recorder (example_recording (1 / 2)) example_detections None
       (Some example_frame) =
     [\<lparr>tlwh = \<lparr>box_left = 0, box_top = 0, box_width = 2, box_height = 2\<rparr>,
        confidence = 1 / 2, feature = 12, class_name = ''person''\<rparr>,
      \<lparr>tlwh = \<lparr>box_left = 1, box_top = 1, box_width = 5, box_height = 5\<rparr>,
        confidence = 1 / 4, feature = 28, class_name = ''car''\<rparr>]"
  by code_simp

lemma example_indices_half:
  "non_max_suppression example_recorder
     (map tlwh (post_filter_detections example_recorder (example_recording (1 / 2))
        example_detections None (Some example_frame)))
     (nms_max_overlap (example_recording (1 / 2)))
     (map confidence (post_filter_detections example_recorder (example_recording (1 / 2))
        example_detections None (Some example_frame))) = [0]"
  by code_simp

lemma example_recorded_run:
  "fst (update_tracks example_recorder (example_recording 1) example_detections None
          (Some example_frame)) = Inr []"
  by code_simp

lemma example_tracked_run:
  "fst (update_tracks example_collaborators example_tracking [example_detections ! 0]
          (Some [5, 6]) None) =
     Inr [\<lparr>track_id = 4, motion = \<lparr>box_left = 0, box_top = 0, box_width = 2, box_height = 2\<rparr>,
            gallery = [12, 5], state = Confirmed, hits = 4, time_since_update = 0,
            class_label = ''person''\<rparr>]"
  by code_simp

lemma create_detections_truncate:
  "create_detections rs es =
     create_detections (take (min (length rs) (length es)) rs) (take (min (length rs) (length es)) es)"
proof -
  have "zip (take (min (length rs) (length es)) rs) (take (min (length rs) (length es)) es) =
          take (length (zip rs es)) (zip rs es)"
    by (simp add: take_zip)
  then show ?thesis
    by (simp add: create_detections_map)
qed

lemma filter_take_filter: "filter P (take k (filter P xs)) = take k (filter P xs)"
proof -
  have "\<forall>x \<in> set (take k (filter P xs)). P x"
    by (auto dest: in_set_takeD)
  then show ?thesis
    by (rule filter_True)
qed

lemma py_slice_inside:
  "0 \<le> a \<Longrightarrow> 0 \<le> b \<Longrightarrow>
     py_slice xs a b =
       take (nat (min b (int (length xs))) - nat (min a (int (length xs))))
         (drop (nat (min a (int (length xs)))) xs)"
  by (simp add: py_slice_def slice_index_def Let_def)

lemma example_post_filter_count:
  "length (post_filter_detections
      (example_recorder\<lparr>non_max_suppression := \<lambda>boxes thr scores. [2]\<rparr>)
      (example_recording (1 / 2)) example_detections None (Some example_frame)) = 2"
  by code_simp

section \<open>The properties\<close>

text \<open>
  C1. With the tracker of the spec, every call of \<^verbatim>\<open>update_tracks\<close> that returns
  gives the tracker's current track list, and every track in it is Confirmed or Tentative:
  no Deleted track is returned.
\<close>

theorem returned_tracks_are_live:
  assumes "E = with_spec_tracker G confirm_hits first_id emb_init emb_predict nms"
    and "fst (update_tracks E self raw embeds frame) = Inr ts"
  shows "ts = tracks (tracker (snd (update_tracks E self raw embeds frame)))
         \<and> (\<forall>t \<in> set ts. state t = Confirmed \<or> state t = Tentative)
         \<and> Deleted \<notin> state ` set ts"
proof -
  from update_tracks_Inr [OF assms(2)] assms(2) obtain ds where
    ts: "ts = Tracker_tracks E (Tracker_update E (Tracker_predict E (tracker self)) ds)"
    and st: "snd (update_tracks E self raw embeds frame) =
               self\<lparr>tracker := Tracker_update E (Tracker_predict E (tracker self)) ds\<rparr>"
    by auto
  have upd: "ts = tracks (update_all G (predict_all G (tracker self)) ds)"
    using ts by (simp add: assms(1) with_spec_tracker_def)
  have same: "ts = tracks (tracker (snd (update_tracks E self raw embeds frame)))"
    unfolding st using upd by (simp add: assms(1) with_spec_tracker_def)
  have live: "state t \<noteq> Deleted" if "t \<in> set ts" for t
    using that unfolding upd by (rule no_deleted_after_update)
  have either: "\<forall>t \<in> set ts. state t = Confirmed \<or> state t = Tentative"
  proof
    fix t assume "t \<in> set ts"
    from live [OF this] show "state t = Confirmed \<or> state t = Tentative"
      by (cases "state t") simp_all
  qed
  have none: "Deleted \<notin> state ` set ts"
  proof
    assume "Deleted \<in> state ` set ts"
    then obtain t where "t \<in> set ts" and "state t = Deleted"
      by auto
    with live show False
      by blast
  qed
  from same either none show ?thesis
    by simp
qed

theorem returned_tracks_are_live_witness:
  "tracks (tracker (snd (update_tracks example_collaborators example_tracking
       [example_detections ! 0] (Some [5, 6]) None))) =
     [\<lparr>track_id = 4, motion = \<lparr>box_left = 0, box_top = 0, box_width = 2, box_height = 2\<rparr>,
       gallery = [12, 5], state = Confirmed, hits = 4, time_since_update = 0,
       class_label = ''person''\<rparr>]
   \<and> map track_id (tracks (tracker example_tracking)) = [4, 6]
   \<and> Deleted \<notin> state ` set (tracks (tracker (snd (update_tracks example_collaborators
       example_tracking [example_detections ! 0] (Some [5, 6]) None))))"
proof -
  note fact = returned_tracks_are_live [OF example_collaborators_def example_tracked_run]
  have before: "map track_id (tracks (tracker example_tracking)) = [4, 6]"
    by (simp add: example_tracking_def)
  from fact have after: "tracks (tracker (snd (update_tracks example_collaborators example_tracking
       [example_detections ! 0] (Some [5, 6]) None))) =
     [\<lparr>track_id = 4, motion = \<lparr>box_left = 0, box_top = 0, box_width = 2, box_height = 2\<rparr>,
       gallery = [12, 5], state = Confirmed, hits = 4, time_since_update = 0,
       class_label = ''person''\<rparr>]"
    by simp
  show ?thesis
    unfolding after by (simp add: before)
qed

text \<open>
  C2. Every raw detection whose width or height is not strictly positive is discarded
  before anything else is done with the detections, and every entry with strictly positive
  width and height is kept. A call gives the result, and leaves the object, of the call on
  the kept entries alone, whatever the embedder, the overlap filter and the tracker are;
  the embedder is called on the crops of the kept entries and \<^verbatim>\<open>create_detections\<close>
  on the kept entries; every Detection built, and every detection the tracker is updated
  with, has strictly positive width and height.
\<close>

theorem degenerate_entries_discarded:
  assumes "kept = filter (\<lambda>d. 0 < box_width (fst d) \<and> 0 < box_height (fst d)) raw"
  shows "(\<forall>d \<in> set raw. d \<in> set kept \<longleftrightarrow> 0 < box_width (fst d) \<and> 0 < box_height (fst d))
       \<and> update_tracks E self raw embeds frame = update_tracks E self kept embeds frame
       \<and> (embeds = None \<and> embedder self = Some emb \<and> frame = Some fr \<longrightarrow>
            post_filter_detections E self raw embeds frame =
              create_detections kept (Embedder_predict E emb (crops_loop fr kept [])))
       \<and> (embeds = Some es \<longrightarrow>
            post_filter_detections E self raw embeds frame = create_detections kept es)
       \<and> (\<forall>x \<in> set (post_filter_detections E self raw embeds frame).
            0 < box_width (tlwh x) \<and> 0 < box_height (tlwh x))
       \<and> (fst (update_tracks E self raw embeds frame) = Inr ts \<longrightarrow>
            (\<exists>ds. (\<forall>x \<in> set ds. 0 < box_width (tlwh x) \<and> 0 < box_height (tlwh x))
               \<and> snd (update_tracks E self raw embeds frame) =
                   self\<lparr>tracker := Tracker_update E (Tracker_predict E (tracker self)) ds\<rparr>))"
proof -
  have a: "\<forall>d \<in> set raw. d \<in> set kept \<longleftrightarrow> 0 < box_width (fst d) \<and> 0 < box_height (fst d)"
    unfolding assms by simp
  have b: "update_tracks E self raw embeds frame = update_tracks E self kept embeds frame"
    unfolding assms by (simp add: update_tracks_def)
  have c: "post_filter_detections E self raw embeds frame =
              create_detections kept (Embedder_predict E emb (crops_loop fr kept []))"
    if "embeds = None \<and> embedder self = Some emb \<and> frame = Some fr"
    using that unfolding assms by (simp add: post_filter_detections_def generate_embeds_def Let_def)
  have d: "post_filter_detections E self raw embeds frame = create_detections kept es"
    if "embeds = Some es"
    using that unfolding assms by (simp add: post_filter_detections_def Let_def)
  have e: "\<forall>x \<in> set (post_filter_detections E self raw embeds frame).
            0 < box_width (tlwh x) \<and> 0 < box_height (tlwh x)"
    using post_filter_detections_positive by blast
  have f: "\<exists>ds. (\<forall>x \<in> set ds. 0 < box_width (tlwh x) \<and> 0 < box_height (tlwh x))
               \<and> snd (update_tracks E self raw embeds frame) =
                   self\<lparr>tracker := Tracker_update E (Tracker_predict E (tracker self)) ds\<rparr>"
    if "fst (update_tracks E self raw embeds frame) = Inr ts"
  proof -
    from update_tracks_Inr [OF that] obtain ds where
      sub: "set ds \<subseteq> set (post_filter_detections E self raw embeds frame)"
      and run: "update_tracks E self raw embeds frame =
           (Inr (Tracker_tracks E (Tracker_update E (Tracker_predict E (tracker self)) ds)),
            self\<lparr>tracker := Tracker_update E (Tracker_predict E (tracker self)) ds\<rparr>)"
      by blast
    from sub e have "\<forall>x \<in> set ds. 0 < box_width (tlwh x) \<and> 0 < box_height (tlwh x)"
      by blast
    with run show ?thesis
      by (intro exI [of _ ds]) simp
  qed
  from a b c d e f show ?thesis
    by blast
qed

theorem degenerate_entries_discarded_witness:
  "example_detections ! 1 \<notin> set [example_detections ! 0, example_detections ! 2]
   \<and> example_detections ! 2 \<in> set [example_detections ! 0, example_detections ! 2]
   \<and> update_tracks example_collaborators (example_object 1 True) example_detections None
       (Some example_frame) =
     update_tracks example_collaborators (example_object 1 True)
       [example_detections ! 0, example_detections ! 2] None (Some example_frame)
   \<and> post_filter_detections example_collaborators (example_object 1 True) example_detections
       None (Some example_frame) =
     [\<lparr>tlwh = \<lparr>box_left = 0, box_top = 0, box_width = 2, box_height = 2\<rparr>,
        confidence = 1 / 2, feature = 12, class_name = ''person''\<rparr>,
      \<lparr>tlwh = \<lparr>box_left = 1, box_top = 1, box_width = 5, box_height = 5\<rparr>,
        confidence = 1 / 4, feature = 28, class_name = ''car''\<rparr>]
   \<and> post_filter_detections example_collaborators (example_object 1 True) example_detections
       (Some [5, 6]) None =
     create_detections [example_detections ! 0, example_detections ! 2] [5, 6]
   \<and> (\<exists>ds. list_all (\<lambda>x. 0 < box_width (tlwh x) \<and> 0 < box_height (tlwh x)) ds
         \<and> snd (update_tracks example_collaborators (example_object 1 True) example_detections
               None (Some example_frame)) =
             (example_object 1 True)\<lparr>tracker :=
                Tracker_update example_collaborators
                  (Tracker_predict example_collaborators (tracker (example_object 1 True))) ds\<rparr>)"
proof -
  note fact = degenerate_entries_discarded [OF example_kept [symmetric],
      where E = example_collaborators and self = "example_object 1 True"]
  note with_frame = fact [where embeds = None and frame = "Some example_frame" and emb = "()"
      and fr = example_frame]
  note with_embeds = fact [where embeds = "Some [5, 6]" and frame = None and es = "[5, 6]"]
  have second: "example_detections ! 1 \<in> set example_detections"
    and third: "example_detections ! 2 \<in> set example_detections"
    by (simp_all add: example_detections_def)
  have narrow: "\<not> (0 < box_width (fst (example_detections ! 1)) \<and>
      0 < box_height (fst (example_detections ! 1)))"
    and wide: "0 < box_width (fst (example_detections ! 2)) \<and>
      0 < box_height (fst (example_detections ! 2))"
    by (simp_all add: example_detections_def)
  from with_frame second narrow
  have a: "example_detections ! 1 \<notin> set [example_detections ! 0, example_detections ! 2]"
    by blast
  from with_frame third wide
  have b: "example_detections ! 2 \<in> set [example_detections ! 0, example_detections ! 2]"
    by blast
  from with_frame
  have c: "update_tracks example_collaborators (example_object 1 True) example_detections None
       (Some example_frame) =
     update_tracks example_collaborators (example_object 1 True)
       [example_detections ! 0, example_detections ! 2] None (Some example_frame)"
    by blast
  from with_frame example_embedder_object
  have "post_filter_detections example_collaborators (example_object 1 True) example_detections
       None (Some example_frame) =
     create_detections [example_detections ! 0, example_detections ! 2]
       (Embedder_predict example_collaborators ()
          (crops_loop example_frame [example_detections ! 0, example_detections ! 2] []))"
    by blast
  then have d: "post_filter_detections example_collaborators (example_object 1 True)
       example_detections None (Some example_frame) =
     [\<lparr>tlwh = \<lparr>box_left = 0, box_top = 0, box_width = 2, box_height = 2\<rparr>,
        confidence = 1 / 2, feature = 12, class_name = ''person''\<rparr>,
      \<lparr>tlwh = \<lparr>box_left = 1, box_top = 1, box_width = 5, box_height = 5\<rparr>,
        confidence = 1 / 4, feature = 28, class_name = ''car''\<rparr>]"
    unfolding example_embedder_detections .
  from with_embeds
  have e: "post_filter_detections example_collaborators (example_object 1 True) example_detections
       (Some [5, 6]) None =
     create_detections [example_detections ! 0, example_detections ! 2] [5, 6]"
    by blast
  from with_frame [where ts = "[\<lparr>track_id = 1, motion = \<lparr>box_left = 0, box_top = 0, box_width = 2, box_height = 2\<rparr>,
            gallery = [12], state = Tentative, hits = 0, time_since_update = 0,
            class_label = ''person''\<rparr>,
          \<lparr>track_id = 2, motion = \<lparr>box_left = 1, box_top = 1, box_width = 5, box_height = 5\<rparr>,
            gallery = [28], state = Tentative, hits = 0, time_since_update = 0,
            class_label = ''car''\<rparr>]"] example_embedder_run
  have f: "\<exists>ds. list_all (\<lambda>x. 0 < box_width (tlwh x) \<and> 0 < box_height (tlwh x)) ds
         \<and> snd (update_tracks example_collaborators (example_object 1 True) example_detections
               None (Some example_frame)) =
             (example_object 1 True)\<lparr>tracker :=
                Tracker_update example_collaborators
                  (Tracker_predict example_collaborators (tracker (example_object 1 True))) ds\<rparr>"
    unfolding list_all_iff by blast
  from a b c d e f show ?thesis
    by (intro conjI)
qed

text \<open>
  C3 as stated fails: a call with three detections, two of them kept, and one descriptor
  returns a track list, and the object after it differs from the object before (the
  tracker has a new track and its identifier counter went from 1 to 2).
\<close>

theorem count_mismatch_not_rejected:
  "length [5 :: nat] \<noteq> length example_detections
   \<and> length [5 :: nat] \<noteq>
       length (filter (\<lambda>d. 0 < box_width (fst d) \<and> 0 < box_height (fst d)) example_detections)
   \<and> fst (update_tracks example_collaborators (example_object 1 False) example_detections
            (Some [5]) None) =
       Inr [\<lparr>track_id = 1, motion = \<lparr>box_left = 0, box_top = 0, box_width = 2, box_height = 2\<rparr>,
              gallery = [5], state = Tentative, hits = 0, time_since_update = 0,
              class_label = ''person''\<rparr>]
   \<and> snd (update_tracks example_collaborators (example_object 1 False) example_detections
            (Some [5]) None) \<noteq> example_object 1 False
   \<and> tracks (tracker (example_object 1 False)) = []
   \<and> next_id (tracker (example_object 1 False)) = 1
   \<and> next_id (tracker (snd (update_tracks example_collaborators (example_object 1 False)
            example_detections (Some [5]) None))) = 2"
  by code_simp

text \<open>
  C3 (as amended). A call whose number of supplied descriptors differs from the number of
  detections is not rejected: \<^verbatim>\<open>create_detections\<close> pairs the first \<open>k\<close> kept
  detections with the first \<open>k\<close> descriptors, \<open>k\<close> the smaller of the two counts, and the
  call is the call on the two lists cut to length \<open>k\<close>. It raises neither of the two
  exceptions of the method, and with the overlap filter off it returns and the tracker is
  predicted and updated with the \<open>k\<close> paired detections.
\<close>

theorem count_mismatch_truncates:
  assumes "length es \<noteq> length raw \<or> length es \<noteq> length kept"
    and "kept = filter (\<lambda>d. 0 < box_width (fst d) \<and> 0 < box_height (fst d)) raw"
    and "k = min (length kept) (length es)"
  shows "post_filter_detections E self raw (Some es) frame =
           create_detections (take k kept) (take k es)
       \<and> length (post_filter_detections E self raw (Some es) frame) = k
       \<and> update_tracks E self raw (Some es) frame =
           update_tracks E self (take k kept) (Some (take k es)) frame
       \<and> fst (update_tracks E self raw (Some es) frame) \<noteq> Inl EmbedderNotCreated
       \<and> fst (update_tracks E self raw (Some es) frame) \<noteq> Inl EmbedsOrFrameMissing
       \<and> (\<not> nms_max_overlap self < 1 \<longrightarrow>
            update_tracks E self raw (Some es) frame =
              (Inr (Tracker_tracks E (Tracker_update E (Tracker_predict E (tracker self))
                      (create_detections (take k kept) (take k es)))),
               self\<lparr>tracker := Tracker_update E (Tracker_predict E (tracker self))
                      (create_detections (take k kept) (take k es))\<rparr>))"
proof -
  have ready: "\<not> (Some xs = None \<and> (embedder self = None \<or> frame = None))" for xs :: "'a list"
    by simp
  have paired: "post_filter_detections E self raw (Some es) frame =
                  create_detections (take k kept) (take k es)"
    unfolding assms(3) post_filter_detections_def assms(2)
    by (simp add: create_detections_truncate [symmetric])
  have count: "length (post_filter_detections E self raw (Some es) frame) = k"
    unfolding assms(3) post_filter_detections_def assms(2)
    by (simp add: create_detections_map)
  have "post_filter_detections E self (take k kept) (Some (take k es)) frame =
          create_detections (take k kept) (take k es)"
    unfolding assms(2) by (simp add: post_filter_detections_def filter_take_filter)
  with paired have "post_filter_detections E self (take k kept) (Some (take k es)) frame =
          post_filter_detections E self raw (Some es) frame"
    by simp
  then have same: "update_tracks E self raw (Some es) frame =
           update_tracks E self (take k kept) (Some (take k es)) frame"
    by (simp add: update_tracks_ready [OF ready])
  have no1: "fst (update_tracks E self raw (Some es) frame) \<noteq> Inl EmbedderNotCreated"
    and no2: "fst (update_tracks E self raw (Some es) frame) \<noteq> Inl EmbedsOrFrameMissing"
    by (auto simp add: update_tracks_ready [OF ready] split: sum.splits if_splits
        dest: py_select_Inl)
  have off: "update_tracks E self raw (Some es) frame =
              (Inr (Tracker_tracks E (Tracker_update E (Tracker_predict E (tracker self))
                      (create_detections (take k kept) (take k es)))),
               self\<lparr>tracker := Tracker_update E (Tracker_predict E (tracker self))
                      (create_detections (take k kept) (take k es))\<rparr>)"
    if "\<not> nms_max_overlap self < 1"
    using that by (simp add: update_tracks_ready [OF ready] paired)
  from paired count same no1 no2 off show ?thesis
    by blast
qed

theorem count_mismatch_truncates_witness:
  "update_tracks example_collaborators (example_object 1 False) example_detections (Some [5]) None =
     update_tracks example_collaborators (example_object 1 False) [example_detections ! 0]
       (Some [5]) None
   \<and> length (post_filter_detections example_collaborators (example_object 1 False)
         example_detections (Some [5]) None) = 1
   \<and> fst (update_tracks example_collaborators (example_object 1 False) example_detections
         (Some [5]) None) =
       Inr (tracks (update_all positional_engine
              (predict_all positional_engine (tracker (example_object 1 False)))
              (create_detections [example_detections ! 0] [5])))"
proof -
  have differ: "length [5 :: nat] \<noteq> length example_detections \<or>
      length [5 :: nat] \<noteq> length (filter (\<lambda>d. 0 < box_width (fst d) \<and> 0 < box_height (fst d))
         example_detections)"
    by (simp add: example_detections_def)
  have off: "\<not> nms_max_overlap (example_object 1 False) < 1"
    by (simp add: example_object_def DeepSort_init_def)
  have methods: "Tracker_predict example_collaborators = predict_all positional_engine"
    "Tracker_update example_collaborators = update_all positional_engine"
    "Tracker_tracks example_collaborators = tracks"
    by (simp_all add: example_collaborators_def with_spec_tracker_def)
  have first: "take 1 [example_detections ! 0, example_detections ! 2] = [example_detections ! 0]"
    and only: "take 1 [5 :: nat] = [5]"
    and one: "min (length [example_detections ! 0, example_detections ! 2]) (length [5 :: nat]) = 1"
    by simp_all
  note fact = count_mismatch_truncates [OF differ refl refl,
      of example_collaborators "example_object 1 False" None, unfolded example_kept one first only]
  from fact have same: "update_tracks example_collaborators (example_object 1 False)
       example_detections (Some [5]) None =
     update_tracks example_collaborators (example_object 1 False) [example_detections ! 0]
       (Some [5]) None"
    by (rule conjunct2 [THEN conjunct2, THEN conjunct1])
  from fact have count: "length (post_filter_detections example_collaborators
         (example_object 1 False) example_detections (Some [5]) None) = 1"
    by (rule conjunct2 [THEN conjunct1])
  from fact have "\<not> nms_max_overlap (example_object 1 False) < 1 \<longrightarrow>
      update_tracks example_collaborators (example_object 1 False) example_detections (Some [5]) None =
        (Inr (Tracker_tracks example_collaborators
                (Tracker_update example_collaborators
                   (Tracker_predict example_collaborators (tracker (example_object 1 False)))
                   (create_detections [example_detections ! 0] [5]))),
         (example_object 1 False)\<lparr>tracker := Tracker_update example_collaborators
                   (Tracker_predict example_collaborators (tracker (example_object 1 False)))
                   (create_detections [example_detections ! 0] [5])\<rparr>)"
    by (rule conjunct2 [THEN conjunct2, THEN conjunct2, THEN conjunct2, THEN conjunct2])
  with off have "fst (update_tracks example_collaborators (example_object 1 False)
        example_detections (Some [5]) None) =
       Inr (Tracker_tracks example_collaborators
                (Tracker_update example_collaborators
                   (Tracker_predict example_collaborators (tracker (example_object 1 False)))
                   (create_detections [example_detections ! 0] [5])))"
    by simp
  then have returned: "fst (update_tracks example_collaborators (example_object 1 False)
        example_detections (Some [5]) None) =
       Inr (tracks (update_all positional_engine
              (predict_all positional_engine (tracker (example_object 1 False)))
              (create_detections [example_detections ! 0] [5])))"
    unfolding methods .
  from same count returned show ?thesis
    by (intro conjI)
qed

text \<open>
  C4. \<^verbatim>\<open>update_tracks\<close> raises one of its two exceptions exactly when no descriptors
  are supplied and either the object has no embedder (\<^verbatim>\<open>embedder=False\<close> at
  construction) or no frame is supplied; with the overlap filter off it raises in no other
  case at all.
\<close>

theorem missing_inputs_rejected:
  "((fst (update_tracks E self raw embeds frame) = Inl EmbedderNotCreated
      \<or> fst (update_tracks E self raw embeds frame) = Inl EmbedsOrFrameMissing)
     \<longleftrightarrow> embeds = None \<and> (embedder self = None \<or> frame = None))
   \<and> (embeds = None \<and> embedder self = None \<longrightarrow>
         update_tracks E self raw embeds frame = (Inl EmbedderNotCreated, self))
   \<and> (embeds = None \<and> embedder self \<noteq> None \<and> frame = None \<longrightarrow>
         update_tracks E self raw embeds frame = (Inl EmbedsOrFrameMissing, self))
   \<and> (\<not> nms_max_overlap self < 1 \<longrightarrow>
         ((\<exists>e. fst (update_tracks E self raw embeds frame) = Inl e)
          \<longleftrightarrow> embeds = None \<and> (embedder self = None \<or> frame = None)))
   \<and> embedder (DeepSort_init E age overlap cosine nn False half bgr) = None
   \<and> embedder (DeepSort_init E age overlap cosine nn True half bgr) \<noteq> None"
proof (cases "embeds = None \<and> (embedder self = None \<or> frame = None)")
  case True
  then show ?thesis
    by (auto simp add: update_tracks_refused DeepSort_init_def)
next
  case False
  have "fst (update_tracks E self raw embeds frame) \<noteq> Inl EmbedderNotCreated"
    and "fst (update_tracks E self raw embeds frame) \<noteq> Inl EmbedsOrFrameMissing"
    using False
    by (auto simp add: update_tracks_ready split: sum.splits if_splits dest: py_select_Inl)
  moreover have "\<not> nms_max_overlap self < 1 \<Longrightarrow>
      \<not> (\<exists>e. fst (update_tracks E self raw embeds frame) = Inl e)"
    using False by (simp add: update_tracks_ready)
  ultimately show ?thesis
    using False by (auto simp add: DeepSort_init_def)
qed

theorem missing_inputs_rejected_witness:
  "update_tracks example_collaborators (example_object 1 False) example_detections None
       (Some example_frame) = (Inl EmbedderNotCreated, example_object 1 False)
   \<and> update_tracks example_collaborators (example_object 1 True) example_detections None None =
       (Inl EmbedsOrFrameMissing, example_object 1 True)
   \<and> (\<nexists>e. fst (update_tracks example_collaborators (example_object 1 False) example_detections
                 (Some [5, 6]) None) = Inl e)"
proof -
  have none: "embedder (example_object 1 False) = None"
    and some: "embedder (example_object 1 True) \<noteq> None"
    and off: "\<not> nms_max_overlap (example_object 1 False) < 1"
    by (simp_all add: example_object_def DeepSort_init_def)
  from none
    missing_inputs_rejected [of example_collaborators "example_object 1 False"
      example_detections None "Some example_frame"]
  have "update_tracks example_collaborators (example_object 1 False) example_detections None
       (Some example_frame) = (Inl EmbedderNotCreated, example_object 1 False)"
    by simp
  moreover from some
    missing_inputs_rejected [of example_collaborators "example_object 1 True"
      example_detections None None]
  have "update_tracks example_collaborators (example_object 1 True) example_detections None None =
       (Inl EmbedsOrFrameMissing, example_object 1 True)"
    by simp
  moreover from off
    missing_inputs_rejected [of example_collaborators "example_object 1 False"
      example_detections "Some [5, 6]" None]
  have "\<nexists>e. fst (update_tracks example_collaborators (example_object 1 False) example_detections
                 (Some [5, 6]) None) = Inl e"
    by simp
  ultimately show ?thesis
    by simp
qed

text \<open>
  C5. Whenever \<^verbatim>\<open>update_tracks\<close> raises, the object after the call is the object
  before it: the tracker, its tracks and its identifier counter are unchanged.
\<close>

theorem raise_leaves_state:
  "fst (update_tracks E self raw embeds frame) = Inl e \<Longrightarrow>
     snd (update_tracks E self raw embeds frame) = self
     \<and> Tracker_tracks E (tracker (snd (update_tracks E self raw embeds frame))) =
         Tracker_tracks E (tracker self)
     \<and> Tracker_next_id E (tracker (snd (update_tracks E self raw embeds frame))) =
         Tracker_next_id E (tracker self)"
  by (auto simp add: update_tracks_def Let_def split: sum.splits if_splits)

theorem raise_leaves_state_witness:
  "fst (update_tracks example_collaborators example_tracking example_detections None
          (Some example_frame)) = Inl EmbedderNotCreated
   \<and> snd (update_tracks example_collaborators example_tracking example_detections None
          (Some example_frame)) = example_tracking
   \<and> tracks (tracker (snd (update_tracks example_collaborators example_tracking
          example_detections None (Some example_frame)))) = tracks (tracker example_tracking)
   \<and> next_id (tracker (snd (update_tracks example_collaborators example_tracking
          example_detections None (Some example_frame)))) = 7"
proof -
  have raised: "fst (update_tracks example_collaborators example_tracking example_detections None
          (Some example_frame)) = Inl EmbedderNotCreated"
    by (simp add: update_tracks_refused example_tracking_def)
  have seven: "next_id (tracker example_tracking) = 7"
    by (simp add: example_tracking_def)
  from raise_leaves_state [OF raised] raised seven show ?thesis
    by simp
qed

text \<open>
  C6. With the overlap threshold not below 1.0 the overlap filter is skipped: it has no
  influence on the call, and the tracker is updated with the full detection list of the
  frame. With the threshold below 1.0 the tracker is updated with exactly the detections at
  the indices the overlap filter returns, in the order it returns them (indices within the
  list, a negative one counting from the end as Python's indexing does); an index outside the
  list raises IndexError before the tracker is touched.
\<close>

theorem nms_threshold_gate:
  assumes "\<not> (embeds = None \<and> (embedder self = None \<or> frame = None))"
    and "D = post_filter_detections E self raw embeds frame"
    and "indices = non_max_suppression E (map tlwh D) (nms_max_overlap self) (map confidence D)"
    and "selected = map (\<lambda>i. D ! nat (if i < 0 then i + int (length D) else i)) indices"
  shows "(\<not> nms_max_overlap self < 1 \<longrightarrow>
           update_tracks E self raw embeds frame =
             (Inr (Tracker_tracks E (Tracker_update E (Tracker_predict E (tracker self)) D)),
              self\<lparr>tracker := Tracker_update E (Tracker_predict E (tracker self)) D\<rparr>)
         \<and> update_tracks (E\<lparr>non_max_suppression := other\<rparr>) self raw embeds frame =
             update_tracks E self raw embeds frame)
       \<and> (nms_max_overlap self < 1
            \<and> list_all (\<lambda>i. - int (length D) \<le> i \<and> i < int (length D)) indices \<longrightarrow>
           update_tracks E self raw embeds frame =
             (Inr (Tracker_tracks E (Tracker_update E (Tracker_predict E (tracker self)) selected)),
              self\<lparr>tracker := Tracker_update E (Tracker_predict E (tracker self)) selected\<rparr>))
       \<and> (nms_max_overlap self < 1
            \<and> \<not> list_all (\<lambda>i. - int (length D) \<le> i \<and> i < int (length D)) indices \<longrightarrow>
           update_tracks E self raw embeds frame = (Inl IndexError, self))"
proof -
  have off: "update_tracks E self raw embeds frame =
             (Inr (Tracker_tracks E (Tracker_update E (Tracker_predict E (tracker self)) D)),
              self\<lparr>tracker := Tracker_update E (Tracker_predict E (tracker self)) D\<rparr>)"
    if "\<not> nms_max_overlap self < 1"
    using that assms(1,2) by (simp add: update_tracks_ready)
  have same: "update_tracks (E\<lparr>non_max_suppression := other\<rparr>) self raw embeds frame =
             update_tracks E self raw embeds frame"
    if "\<not> nms_max_overlap self < 1"
    using that assms(1) by (simp add: update_tracks_ready post_filter_detections_nms)
  have on: "update_tracks E self raw embeds frame =
             (Inr (Tracker_tracks E (Tracker_update E (Tracker_predict E (tracker self)) selected)),
              self\<lparr>tracker := Tracker_update E (Tracker_predict E (tracker self)) selected\<rparr>)"
    if "nms_max_overlap self < 1"
      and "list_all (\<lambda>i. - int (length D) \<le> i \<and> i < int (length D)) indices"
  proof -
    from that(2) have "py_select D indices = Inr selected"
      unfolding assms(4) by (rule py_select_valid)
    with that(1) assms(1,2,3) show ?thesis
      by (simp add: update_tracks_ready)
  qed
  have bad: "update_tracks E self raw embeds frame = (Inl IndexError, self)"
    if "nms_max_overlap self < 1"
      and "\<not> list_all (\<lambda>i. - int (length D) \<le> i \<and> i < int (length D)) indices"
  proof -
    from that(2) have "py_select D indices = Inl IndexError"
      by (rule py_select_invalid)
    with that(1) assms(1,2,3) show ?thesis
      by (simp add: update_tracks_ready)
  qed
  from off same on bad show ?thesis
    by blast
qed

theorem nms_threshold_gate_witness:
  "update_tracks example_recorder (example_recording 1) example_detections None
       (Some example_frame) =
     (Inr [],
      \<lparr>nms_max_overlap = 1,
       tracker =
         [CallPredict,
          CallUpdate
            [\<lparr>tlwh = \<lparr>box_left = 0, box_top = 0, box_width = 2, box_height = 2\<rparr>,
               confidence = 1 / 2, feature = 12, class_name = ''person''\<rparr>,
             \<lparr>tlwh = \<lparr>box_left = 1, box_top = 1, box_width = 5, box_height = 5\<rparr>,
               confidence = 1 / 4, feature = 28, class_name = ''car''\<rparr>]],
       embedder = Some ()\<rparr>)
   \<and> update_tracks example_recorder (example_recording (1 / 2)) example_detections None
       (Some example_frame) =
     (Inr [],
      \<lparr>nms_max_overlap = 1 / 2,
       tracker =
         [CallPredict,
          CallUpdate
            [\<lparr>tlwh = \<lparr>box_left = 0, box_top = 0, box_width = 2, box_height = 2\<rparr>,
               confidence = 1 / 2, feature = 12, class_name = ''person''\<rparr>]],
       embedder = Some ()\<rparr>)
   \<and> update_tracks (example_recorder\<lparr>non_max_suppression := \<lambda>boxes thr scores. [2]\<rparr>)
       (example_recording (1 / 2)) example_detections None (Some example_frame) =
     (Inl IndexError, example_recording (1 / 2))"
proof -
  have ready: "\<not> (None = None \<and> (embedder (example_recording overlap) = None \<or> Some example_frame = None))"
    for overlap
    by (simp add: example_recording_def)
  have off: "\<not> nms_max_overlap (example_recording 1) < 1"
    and on: "nms_max_overlap (example_recording (1 / 2)) < 1"
    by (simp_all add: example_recording_def)
  have fresh: "tracker (example_recording overlap) = []" for overlap
    by (simp add: example_recording_def)
  have calls: "Tracker_tracks example_recorder c = []"
    "Tracker_predict example_recorder c = c @ [CallPredict]"
    "Tracker_update example_recorder c ds = c @ [CallUpdate ds]" for c ds
    by (simp_all add: example_recorder_def with_recording_tracker_def)
  from off nms_threshold_gate [OF ready refl refl refl, of 1 example_recorder example_detections]
  have "update_tracks example_recorder (example_recording 1) example_detections None
       (Some example_frame) =
     (Inr [], (example_recording 1)\<lparr>tracker :=
        [CallPredict, CallUpdate (post_filter_detections example_recorder (example_recording 1)
            example_detections None (Some example_frame))]\<rparr>)"
    by (simp add: calls fresh)
  then have first: "update_tracks example_recorder (example_recording 1) example_detections None
       (Some example_frame) =
     (Inr [],
      \<lparr>nms_max_overlap = 1,
       tracker =
         [CallPredict,
          CallUpdate
            [\<lparr>tlwh = \<lparr>box_left = 0, box_top = 0, box_width = 2, box_height = 2\<rparr>,
               confidence = 1 / 2, feature = 12, class_name = ''person''\<rparr>,
             \<lparr>tlwh = \<lparr>box_left = 1, box_top = 1, box_width = 5, box_height = 5\<rparr>,
               confidence = 1 / 4, feature = 28, class_name = ''car''\<rparr>]],
       embedder = Some ()\<rparr>)"
    unfolding example_post_filter by (simp add: example_recording_def)
  from on nms_threshold_gate [OF ready refl refl refl, of "1 / 2" example_recorder example_detections]
  have "update_tracks example_recorder (example_recording (1 / 2)) example_detections None
       (Some example_frame) =
     (Inr [], (example_recording (1 / 2))\<lparr>tracker :=
        [CallPredict, CallUpdate [post_filter_detections example_recorder (example_recording (1 / 2))
            example_detections None (Some example_frame) ! 0]]\<rparr>)"
    unfolding example_indices_half by (simp add: calls fresh example_post_filter_half)
  then have second: "update_tracks example_recorder (example_recording (1 / 2)) example_detections None
       (Some example_frame) =
     (Inr [],
      \<lparr>nms_max_overlap = 1 / 2,
       tracker =
         [CallPredict,
          CallUpdate
            [\<lparr>tlwh = \<lparr>box_left = 0, box_top = 0, box_width = 2, box_height = 2\<rparr>,
               confidence = 1 / 2, feature = 12, class_name = ''person''\<rparr>]],
       embedder = Some ()\<rparr>)"
    unfolding example_post_filter_half by (simp add: example_recording_def)
  have wrong: "non_max_suppression (example_recorder\<lparr>non_max_suppression := \<lambda>boxes thr scores. [2]\<rparr>)
      boxes thr scores = [2]" for boxes thr scores
    by simp
  from on nms_threshold_gate [OF ready refl refl refl, of "1 / 2"
      "example_recorder\<lparr>non_max_suppression := \<lambda>boxes thr scores. [2]\<rparr>" example_detections]
  have third: "update_tracks (example_recorder\<lparr>non_max_suppression := \<lambda>boxes thr scores. [2]\<rparr>)
       (example_recording (1 / 2)) example_detections None (Some example_frame) =
     (Inl IndexError, example_recording (1 / 2))"
    unfolding wrong example_post_filter_count by simp
  from first second third show ?thesis
    by (intro conjI)
qed

text \<open>
  C7. \<^verbatim>\<open>create_detections\<close> pairs detections and descriptors by position and keeps the
  order: the i-th Detection has the box, the confidence and the class of the i-th raw
  detection and the i-th descriptor, for every i below both counts; the output has as many
  entries as the shorter input, so as many as the raw detections when the counts agree.
\<close>

theorem create_detections_positional:
  "length (create_detections raw_dets embeds) = min (length raw_dets) (length embeds)
   \<and> (\<forall>i < min (length raw_dets) (length embeds).
         tlwh (create_detections raw_dets embeds ! i) = fst (raw_dets ! i)
       \<and> confidence (create_detections raw_dets embeds ! i) = fst (snd (raw_dets ! i))
       \<and> feature (create_detections raw_dets embeds ! i) = embeds ! i
       \<and> class_name (create_detections raw_dets embeds ! i) = snd (snd (raw_dets ! i)))
   \<and> (length embeds = length raw_dets \<longrightarrow>
         length (create_detections raw_dets embeds) = length raw_dets)"
  by (simp add: create_detections_map Detection_def)

theorem create_detections_positional_witness:
  "length (create_detections example_detections [7, 8, 9 :: nat]) = 3
   \<and> tlwh (create_detections example_detections [7, 8, 9 :: nat] ! 2) = fst (example_detections ! 2)
   \<and> confidence (create_detections example_detections [7, 8, 9 :: nat] ! 2) = 1 / 4
   \<and> feature (create_detections example_detections [7, 8, 9 :: nat] ! 2) = 9
   \<and> class_name (create_detections example_detections [7, 8, 9 :: nat] ! 2) = ''car''"
proof -
  have len: "length example_detections = 3"
    by (simp add: example_detections_def)
  have third: "example_detections ! 2 =
      (\<lparr>box_left = 1, box_top = 1, box_width = 5, box_height = 5\<rparr>, 1 / 4, ''car'')"
    by (simp add: example_detections_def)
  note fact = create_detections_positional [of example_detections "[7, 8, 9 :: nat]"]
  from fact len have "length (create_detections example_detections [7, 8, 9 :: nat]) = 3"
    by simp
  moreover from fact len have
    "tlwh (create_detections example_detections [7, 8, 9 :: nat] ! 2) = fst (example_detections ! 2)
     \<and> confidence (create_detections example_detections [7, 8, 9 :: nat] ! 2) = fst (snd (example_detections ! 2))
     \<and> feature (create_detections example_detections [7, 8, 9 :: nat] ! 2) = [7, 8, 9 :: nat] ! 2
     \<and> class_name (create_detections example_detections [7, 8, 9 :: nat] ! 2) = snd (snd (example_detections ! 2))"
    by simp
  ultimately show ?thesis
    by (simp add: third)
qed

text \<open>
  C8. Every call of \<^verbatim>\<open>update_tracks\<close> that returns runs the cycle in order: the
  tracker after the call is the tracker before it after one predict step and then one update
  step, and the value returned is read from that tracker. On a tracker that records its
  calls, a returning call adds exactly a predict call followed by an update call.
\<close>

theorem predict_then_update_once:
  "(fst (update_tracks E self raw embeds frame) = Inr ts \<longrightarrow>
      (\<exists>ds. set ds \<subseteq> set (post_filter_detections E self raw embeds frame)
           \<and> snd (update_tracks E self raw embeds frame) =
               self\<lparr>tracker := Tracker_update E (Tracker_predict E (tracker self)) ds\<rparr>
           \<and> ts = Tracker_tracks E (Tracker_update E (Tracker_predict E (tracker self)) ds)))
   \<and> (fst (update_tracks (with_recording_tracker emb_init emb_predict nms) rself raw' embeds' frame')
         = Inr rs \<longrightarrow>
      (\<exists>ds. tracker (snd (update_tracks (with_recording_tracker emb_init emb_predict nms) rself
                raw' embeds' frame')) = tracker rself @ [CallPredict, CallUpdate ds]))"
proof (intro conjI impI)
  assume "fst (update_tracks E self raw embeds frame) = Inr ts"
  from update_tracks_Inr [OF this] this
  show "\<exists>ds. set ds \<subseteq> set (post_filter_detections E self raw embeds frame)
           \<and> snd (update_tracks E self raw embeds frame) =
               self\<lparr>tracker := Tracker_update E (Tracker_predict E (tracker self)) ds\<rparr>
           \<and> ts = Tracker_tracks E (Tracker_update E (Tracker_predict E (tracker self)) ds)"
    by auto
next
  assume "fst (update_tracks (with_recording_tracker emb_init emb_predict nms) rself raw' embeds' frame')
         = Inr rs"
  from update_tracks_Inr [OF this]
  show "\<exists>ds. tracker (snd (update_tracks (with_recording_tracker emb_init emb_predict nms) rself
                raw' embeds' frame')) = tracker rself @ [CallPredict, CallUpdate ds]"
    by (auto simp add: with_recording_tracker_def)
qed

theorem predict_then_update_once_witness:
  "(\<exists>ds. snd (update_tracks example_collaborators example_tracking [example_detections ! 0]
               (Some [5, 6]) None) =
             example_tracking\<lparr>tracker :=
               update_all positional_engine
                 (predict_all positional_engine (tracker example_tracking)) ds\<rparr>)
   \<and> (\<exists>ds. tracker (snd (update_tracks example_recorder (example_recording 1)
               example_detections None (Some example_frame))) = [CallPredict, CallUpdate ds])"
proof -
  note fact = predict_then_update_once
    [where E = example_collaborators and self = example_tracking
       and raw = "[example_detections ! 0]" and embeds = "Some [5, 6]" and frame = None
       and emb_init = "\<lambda>half n bgr. ()" and emb_predict = pixel_sum and nms = keep_confident
       and rself = "example_recording 1" and raw' = example_detections and embeds' = None
       and frame' = "Some example_frame" and rs = "[]"]
  have methods: "Tracker_predict example_collaborators = predict_all positional_engine"
    "Tracker_update example_collaborators = update_all positional_engine"
    by (simp_all add: example_collaborators_def with_spec_tracker_def)
  have fresh: "tracker (example_recording 1) = []"
    by (simp add: example_recording_def)
  from fact example_tracked_run
  have "\<exists>ds. snd (update_tracks example_collaborators example_tracking [example_detections ! 0]
               (Some [5, 6]) None) =
             example_tracking\<lparr>tracker :=
               update_all positional_engine
                 (predict_all positional_engine (tracker example_tracking)) ds\<rparr>"
    unfolding methods by blast
  moreover from fact example_recorded_run
  have "\<exists>ds. tracker (snd (update_tracks example_recorder (example_recording 1)
               example_detections None (Some example_frame))) = [CallPredict, CallUpdate ds]"
    unfolding example_recorder_def fresh by simp
  ultimately show ?thesis
    by simp
qed

text \<open>
  C9 fails for a box whose right or bottom edge is negative. The detection
  \<^verbatim>\<open>([-2, -2, 1, 1], 0.5, 'person')\<close> passes the size filter and lies wholly outside a
  3 by 3 frame; \<^verbatim>\<open>crop_r\<close> and \<^verbatim>\<open>crop_b\<close> are both \<open>-1\<close>, outside the frame bounds, and
  the slice \<^verbatim>\<open>frame[0:-1, 0:-1]\<close> is the upper left 2 by 2 block of the frame and not an
  empty crop. The embedder gets that block, and the new track carries its descriptor.
\<close>

theorem crop_outside_frame:
  "0 < box_width (fst outside_detection) \<and> 0 < box_height (fst outside_detection)
   \<and> py_int (box_left (fst outside_detection)) + py_int (box_width (fst outside_detection)) = - 1
   \<and> py_int (box_top (fst outside_detection)) + py_int (box_height (fst outside_detection)) = - 1
   \<and> crops_loop example_frame [outside_detection] [] =
       [\<lparr>shape0 = 2, shape1 = 2, rows = [[1, 2], [4, 5]]\<rparr>]
   \<and> generate_embeds example_collaborators () example_frame [outside_detection] = [12]
   \<and> fst (update_tracks example_collaborators (example_object 1 True) [outside_detection] None
            (Some example_frame)) =
       Inr [\<lparr>track_id = 1,
              motion = \<lparr>box_left = - 2, box_top = - 2, box_width = 1, box_height = 1\<rparr>,
              gallery = [12], state = Tentative, hits = 0, time_since_update = 0,
              class_label = ''person''\<rparr>]"
  by code_simp

text \<open>
  C10. \<^verbatim>\<open>refresh_track_ids\<close> leaves the whole object unchanged: it reads the tracker's
  next-identifier counter and modifies neither the counter nor any track.
\<close>

theorem refresh_track_ids_no_effect:
  "refresh_track_ids E self = self
   \<and> Tracker_next_id E (tracker (refresh_track_ids E self)) = Tracker_next_id E (tracker self)
   \<and> Tracker_tracks E (tracker (refresh_track_ids E self)) = Tracker_tracks E (tracker self)"
  by (simp add: refresh_track_ids_def)

subsection \<open>Further properties of the methods\<close>

text \<open>
  The crop of \<^verbatim>\<open>generate_embeds\<close> where the clipping works: for a well-formed frame of
  shape \<open>H\<close> by \<open>W\<close> and a box whose right edge \<open>l + w\<close> and bottom edge \<open>t + h\<close>
  (after truncation) are not negative, the crop is the frame region of the rows from
  \<open>max(0, t)\<close> to \<open>min(H, t + h)\<close> and the columns from \<open>max(0, l)\<close> to \<open>min(W, l + w)\<close>,
  every bound within the frame (empty when the box lies beyond the right or bottom edge).
\<close>

theorem crop_clipped_when_edges_inside:
  assumes "ndarray_ok frame"
    and "l = py_int (box_left (fst d))" and "t = py_int (box_top (fst d))"
    and "w = py_int (box_width (fst d))" and "h = py_int (box_height (fst d))"
    and "0 \<le> l + w" and "0 \<le> t + h"
    and "r0 = nat (min (max 0 t) (int (shape0 frame)))"
    and "r1 = nat (min (int (shape0 frame)) (t + h))"
    and "c0 = nat (min (max 0 l) (int (shape1 frame)))"
    and "c1 = nat (min (int (shape1 frame)) (l + w))"
  shows "crops_loop frame [d] [] =
           [\<lparr>shape0 = r1 - r0, shape1 = c1 - c0,
             rows = map (\<lambda>row. take (c1 - c0) (drop c0 row)) (take (r1 - r0) (drop r0 (rows frame)))\<rparr>]
         \<and> r0 \<le> shape0 frame \<and> r1 \<le> shape0 frame \<and> c0 \<le> shape1 frame \<and> c1 \<le> shape1 frame"
proof -
  have len: "length (rows frame) = shape0 frame"
    and wid: "\<And>row. row \<in> set (rows frame) \<Longrightarrow> length row = shape1 frame"
    using assms(1) by (auto simp add: ndarray_ok_def list_all_iff)
  have top: "(0::int) \<le> max 0 t" and left: "(0::int) \<le> max 0 l"
    by simp_all
  have bottom: "0 \<le> min (int (shape0 frame)) (t + h)"
    and right: "0 \<le> min (int (shape1 frame)) (l + w)"
    using assms(6,7) by simp_all
  have rws: "py_slice (rows frame) (max 0 t) (min (int (shape0 frame)) (t + h)) =
               take (r1 - r0) (drop r0 (rows frame))"
    unfolding py_slice_inside [OF top bottom] len assms(8,9)
    by (simp add: min.commute)
  have cols: "py_slice row (max 0 l) (min (int (shape1 frame)) (l + w)) =
               take (c1 - c0) (drop c0 row)"
    if "row \<in> set (rows frame)" for row
    unfolding py_slice_inside [OF left right] wid [OF that] assms(10,11)
    by (simp add: min.commute)
  have "map (\<lambda>row. py_slice row (max 0 l) (min (int (shape1 frame)) (l + w)))
          (take (r1 - r0) (drop r0 (rows frame))) =
        map (\<lambda>row. take (c1 - c0) (drop c0 row)) (take (r1 - r0) (drop r0 (rows frame)))"
  proof (rule map_cong [OF refl])
    fix row assume "row \<in> set (take (r1 - r0) (drop r0 (rows frame)))"
    then have "row \<in> set (rows frame)"
      by (meson in_set_takeD in_set_dropD)
    then show "py_slice row (max 0 l) (min (int (shape1 frame)) (l + w)) =
        take (c1 - c0) (drop c0 row)"
      by (rule cols)
  qed
  then have content: "rows (ndarray_slice frame (max 0 t) (min (int (shape0 frame)) (t + h))
        (max 0 l) (min (int (shape1 frame)) (l + w))) =
      map (\<lambda>row. take (c1 - c0) (drop c0 row)) (take (r1 - r0) (drop r0 (rows frame)))"
    by (simp add: ndarray_slice_def rws)
  have s0: "shape0 (ndarray_slice frame (max 0 t) (min (int (shape0 frame)) (t + h))
        (max 0 l) (min (int (shape1 frame)) (l + w))) = r1 - r0"
    using bottom unfolding assms(8,9) by (simp add: ndarray_slice_def slice_index_def min.commute)
  have s1: "shape1 (ndarray_slice frame (max 0 t) (min (int (shape0 frame)) (t + h))
        (max 0 l) (min (int (shape1 frame)) (l + w))) = c1 - c0"
    using right unfolding assms(10,11) by (simp add: ndarray_slice_def slice_index_def min.commute)
  have crop: "ndarray_slice frame (max 0 t) (min (int (shape0 frame)) (t + h))
        (max 0 l) (min (int (shape1 frame)) (l + w)) =
      \<lparr>shape0 = r1 - r0, shape1 = c1 - c0,
       rows = map (\<lambda>row. take (c1 - c0) (drop c0 row)) (take (r1 - r0) (drop r0 (rows frame)))\<rparr>"
    using content s0 s1 by (cases "ndarray_slice frame (max 0 t) (min (int (shape0 frame)) (t + h))
        (max 0 l) (min (int (shape1 frame)) (l + w))") simp
  have loop: "crops_loop frame [d] [] =
      [ndarray_slice frame (max 0 t) (min (int (shape0 frame)) (t + h))
        (max 0 l) (min (int (shape1 frame)) (l + w))]"
    unfolding assms(2,3,4,5) by (simp add: Let_def)
  have bounds: "r0 \<le> shape0 frame \<and> r1 \<le> shape0 frame \<and> c0 \<le> shape1 frame \<and> c1 \<le> shape1 frame"
    unfolding assms(8,9,10,11) by (simp add: nat_le_iff)
  from loop crop bounds show ?thesis
    by simp
qed

theorem crop_clipped_when_edges_inside_witness:
  "ndarray_ok example_frame
   \<and> crops_loop example_frame [example_detections ! 2] [] =
       [\<lparr>shape0 = 2, shape1 = 2, rows = [[5, 6], [8, 9]]\<rparr>]"
proof -
  have ok: "ndarray_ok example_frame"
    by code_simp
  have l: "1 = py_int (box_left (fst (example_detections ! 2)))"
    and t: "1 = py_int (box_top (fst (example_detections ! 2)))"
    and w: "5 = py_int (box_width (fst (example_detections ! 2)))"
    and h: "5 = py_int (box_height (fst (example_detections ! 2)))"
    by code_simp+
  have r0: "1 = nat (min (max 0 1) (int (shape0 example_frame)))"
    and r1: "3 = nat (min (int (shape0 example_frame)) (1 + 5))"
    and c0: "1 = nat (min (max 0 1) (int (shape1 example_frame)))"
    and c1: "3 = nat (min (int (shape1 example_frame)) (1 + 5))"
    by code_simp+
  have inside: "(0::int) \<le> 1 + 5"
    by simp
  note fact = crop_clipped_when_edges_inside [OF ok l t w h inside inside r0 r1 c0 c1]
  have region: "map (\<lambda>row. take (3 - 1) (drop 1 row)) (take (3 - 1) (drop 1 (rows example_frame))) =
      [[5, 6], [8, 9 :: nat]]"
    by code_simp
  from fact have "crops_loop example_frame [example_detections ! 2] [] =
      [\<lparr>shape0 = 3 - 1, shape1 = 3 - 1,
        rows = map (\<lambda>row. take (3 - 1) (drop 1 row)) (take (3 - 1) (drop 1 (rows example_frame)))\<rparr>]"
    by (rule conjunct1)
  then have "crops_loop example_frame [example_detections ! 2] [] =
      [\<lparr>shape0 = 2, shape1 = 2, rows = [[5, 6], [8, 9]]\<rparr>]"
    unfolding region by simp
  with ok show ?thesis
    by (intro conjI)
qed

text \<open>
  When descriptors are supplied, the size filter is applied to the detections only: the
  i-th kept detection is paired with the i-th supplied descriptor, whatever position the
  detection had in the input (in the example the third raw detection gets the descriptor
  supplied second, because the second raw detection is discarded).
\<close>

theorem supplied_descriptors_pair_with_kept:
  assumes "kept = filter (\<lambda>d. 0 < box_width (fst d) \<and> 0 < box_height (fst d)) raw"
    and "i < length kept" and "i < length es"
  shows "tlwh (post_filter_detections E self raw (Some es) frame ! i) = fst (kept ! i)
       \<and> confidence (post_filter_detections E self raw (Some es) frame ! i) = fst (snd (kept ! i))
       \<and> class_name (post_filter_detections E self raw (Some es) frame ! i) = snd (snd (kept ! i))
       \<and> feature (post_filter_detections E self raw (Some es) frame ! i) = es ! i"
  using assms(2,3) unfolding assms(1)
  by (simp add: post_filter_detections_def create_detections_map Detection_def)

theorem supplied_descriptors_pair_with_kept_witness:
  "tlwh (post_filter_detections example_collaborators (example_object 1 False) example_detections
      (Some [10, 11, 12]) None ! 1) = fst (example_detections ! 2)
   \<and> feature (post_filter_detections example_collaborators (example_object 1 False)
      example_detections (Some [10, 11, 12]) None ! 1) = 11"
proof -
  have "(1::nat) < length [example_detections ! 0, example_detections ! 2]"
    and "(1::nat) < length [10, 11, 12 :: nat]"
    by simp_all
  from supplied_descriptors_pair_with_kept [OF example_kept [symmetric] this,
      of example_collaborators "example_object 1 False" None]
  show ?thesis
    by simp
qed

end
